theory Spec2Isabelle
  imports Main "HOL-Library.Char_ord" "HOL-Library.Multiset"
begin

section \<open>Go string primitives used by the packages code\<close>

text \<open>
  Go strings are byte sequences; they are modelled as \<^typ>\<open>string\<close> (a list of
  characters).  The functions below are the ones of Go's \<open>strings\<close> package that the
  repository calls, with Go's argument order.  A slice \<open>s[n:]\<close> is \<open>drop n s\<close> and
  \<open>s[:n]\<close> is \<open>take n s\<close>; every slice the modelled code takes is in range.
\<close>

definition HasPrefix :: "string \<Rightarrow> string \<Rightarrow> bool" where
  "HasPrefix s pre = (take (length pre) s = pre)"

definition HasSuffix :: "string \<Rightarrow> string \<Rightarrow> bool" where
  "HasSuffix s suf = (length suf \<le> length s \<and> drop (length s - length suf) s = suf)"

definition TrimPrefix :: "string \<Rightarrow> string \<Rightarrow> string" where
  "TrimPrefix s pre = (if HasPrefix s pre then drop (length pre) s else s)"

fun Contains :: "string \<Rightarrow> string \<Rightarrow> bool" where
  "Contains [] sub = (sub = [])"
| "Contains (c # s) sub = (HasPrefix (c # s) sub \<or> Contains s sub)"

text \<open>\<open>strings.Index\<close>: the position of the first occurrence, or \<open>-1\<close>.\<close>

fun Index :: "string \<Rightarrow> string \<Rightarrow> int" where
  "Index [] sub = (if sub = [] then 0 else - 1)"
| "Index (c # s) sub =
     (if HasPrefix (c # s) sub then 0
      else (let i = Index s sub in if i < 0 then - 1 else i + 1))"

section \<open>Library code the repository calls: \<open>golang.org/x/mod\<close>\<close>

text \<open>
  The repository imports \<open>semver\<close> and \<open>module\<close> from \<open>golang.org/x/mod\<close>.  Their
  functions \<open>semver.IsValid\<close>, \<open>semver.Major\<close> and \<open>module.SplitPathVersion\<close> decide
  branches of the repository's code, so they are transcribed here from the library,
  loop by loop.  \<open>semver.Compare\<close> and \<open>module.MatchPrefixPatterns\<close> only select what
  the list command prints and stay parameters of the model.
\<close>

definition isDigit :: "char \<Rightarrow> bool" where
  "isDigit c = (CHR ''0'' \<le> c \<and> c \<le> CHR ''9'')"

text \<open>The slice \<open>v[a:b]\<close>.\<close>

definition slice :: "string \<Rightarrow> nat \<Rightarrow> nat \<Rightarrow> string" where
  "slice v a b = take (b - a) (drop a v)"

text \<open>\<open>for i < len(v) && '0' <= v[i] && v[i] <= '9' { i++ }\<close>\<close>

function scan_digits :: "string \<Rightarrow> nat \<Rightarrow> nat" where
  "scan_digits v i = (if i < length v \<and> isDigit (v ! i) then scan_digits v (Suc i) else i)"
  by pat_completeness auto
termination
  by (relation "measure (\<lambda>(v, i). length v - i)") auto

declare scan_digits.simps [simp del]

subsection \<open>\<open>semver.parse\<close>, \<open>semver.IsValid\<close>, \<open>semver.Major\<close>\<close>

definition parseInt :: "string \<Rightarrow> string \<times> string \<times> bool" where
  "parseInt v =
     (if v = '''' then ('''', '''', False)
      else if v ! 0 < CHR ''0'' \<or> CHR ''9'' < v ! 0 then ('''', '''', False)
      else (let i = scan_digits v 1 in
            if v ! 0 = CHR ''0'' \<and> i \<noteq> 1 then ('''', '''', False)
            else (take i v, drop i v, True)))"

definition isIdentChar :: "char \<Rightarrow> bool" where
  "isIdentChar c =
     (CHR ''A'' \<le> c \<and> c \<le> CHR ''Z'' \<or> CHR ''a'' \<le> c \<and> c \<le> CHR ''z'' \<or>
      CHR ''0'' \<le> c \<and> c \<le> CHR ''9'' \<or> c = CHR ''-'')"

definition isBadNum :: "string \<Rightarrow> bool" where
  "isBadNum v = (let i = scan_digits v 0 in i = length v \<and> i > 1 \<and> v ! 0 = CHR ''0'')"

text \<open>
  The loop of \<open>parsePrerelease\<close> over the indices \<open>i\<close> and \<open>start\<close>: \<open>None\<close> is its
  early failing return, \<open>Some (i, start)\<close> the indices at which it stops.
\<close>

function prerelease_loop :: "string \<Rightarrow> nat \<Rightarrow> nat \<Rightarrow> (nat \<times> nat) option" where
  "prerelease_loop v i start =
     (if i < length v \<and> v ! i \<noteq> CHR ''+'' then
        (if \<not> isIdentChar (v ! i) \<and> v ! i \<noteq> CHR ''.'' then None
         else if v ! i = CHR ''.'' then
           (if start = i \<or> isBadNum (slice v start i) then None
            else prerelease_loop v (Suc i) (Suc i))
         else prerelease_loop v (Suc i) start)
      else Some (i, start))"
  by pat_completeness auto
termination
  by (relation "measure (\<lambda>(v, i, start). length v - i)") auto

declare prerelease_loop.simps [simp del]

definition parsePrerelease :: "string \<Rightarrow> string \<times> string \<times> bool" where
  "parsePrerelease v =
     (if v = '''' \<or> v ! 0 \<noteq> CHR ''-'' then ('''', '''', False)
      else (case prerelease_loop v 1 1 of
              None \<Rightarrow> ('''', '''', False)
            | Some (i, start) \<Rightarrow>
                if start = i \<or> isBadNum (slice v start i) then ('''', '''', False)
                else (take i v, drop i v, True)))"

function build_loop :: "string \<Rightarrow> nat \<Rightarrow> nat \<Rightarrow> (nat \<times> nat) option" where
  "build_loop v i start =
     (if i < length v then
        (if \<not> isIdentChar (v ! i) \<and> v ! i \<noteq> CHR ''.'' then None
         else if v ! i = CHR ''.'' then
           (if start = i then None else build_loop v (Suc i) (Suc i))
         else build_loop v (Suc i) start)
      else Some (i, start))"
  by pat_completeness auto
termination
  by (relation "measure (\<lambda>(v, i, start). length v - i)") auto

declare build_loop.simps [simp del]

definition parseBuild :: "string \<Rightarrow> string \<times> string \<times> bool" where
  "parseBuild v =
     (if v = '''' \<or> v ! 0 \<noteq> CHR ''+'' then ('''', '''', False)
      else (case build_loop v 1 1 of
              None \<Rightarrow> ('''', '''', False)
            | Some (i, start) \<Rightarrow>
                if start = i then ('''', '''', False) else (take i v, drop i v, True)))"

text \<open>The struct \<open>parsed\<close>, the result of \<open>parse\<close>.\<close>

record parsed =
  p_major :: string
  p_minor :: string
  p_patch :: string
  p_short :: string
  p_prerelease :: string
  p_build :: string

text \<open>
  \<open>parse\<close> returns \<open>(p, ok)\<close>; every caller reads \<open>p\<close> only when \<open>ok\<close> holds, so the
  model returns \<open>None\<close> for \<open>ok = false\<close>.  \<open>parse_tail\<close> is the part of \<open>parse\<close>
  after the patch number.
\<close>

definition parse_tail :: "string \<Rightarrow> string \<Rightarrow> string \<Rightarrow> string \<Rightarrow> parsed option" where
  "parse_tail mj mn pt v =
     (let (prerelease, v, ok) =
            (if length v > 0 \<and> v ! 0 = CHR ''-'' then parsePrerelease v else ('''', v, True))
      in if \<not> ok then None
         else (let (build, v, ok) =
                     (if length v > 0 \<and> v ! 0 = CHR ''+'' then parseBuild v else ('''', v, True))
               in if \<not> ok then None
                  else if v \<noteq> '''' then None
                  else Some \<lparr>p_major = mj, p_minor = mn, p_patch = pt, p_short = '''',
                              p_prerelease = prerelease, p_build = build\<rparr>))"

definition parse :: "string \<Rightarrow> parsed option" where
  "parse v =
     (if v = '''' \<or> v ! 0 \<noteq> CHR ''v'' then None
      else (let (mj, v, ok) = parseInt (drop 1 v) in
        if \<not> ok then None
        else if v = '''' then
          Some \<lparr>p_major = mj, p_minor = ''0'', p_patch = ''0'', p_short = ''.0.0'',
                p_prerelease = '''', p_build = ''''\<rparr>
        else if v ! 0 \<noteq> CHR ''.'' then None
        else (let (mn, v, ok) = parseInt (drop 1 v) in
          if \<not> ok then None
          else if v = '''' then
            Some \<lparr>p_major = mj, p_minor = mn, p_patch = ''0'', p_short = ''.0'',
                  p_prerelease = '''', p_build = ''''\<rparr>
          else if v ! 0 \<noteq> CHR ''.'' then None
          else (let (pt, v, ok) = parseInt (drop 1 v) in
            if \<not> ok then None else parse_tail mj mn pt v))))"

definition IsValid :: "string \<Rightarrow> bool" where
  "IsValid v = (parse v \<noteq> None)"

text \<open>\<open>semver.Major\<close>: \<open>v[:1+len(pv.major)]\<close>, or the empty string for an invalid version.\<close>

definition Major :: "string \<Rightarrow> string" where
  "Major v = (case parse v of None \<Rightarrow> '''' | Some pv \<Rightarrow> take (1 + length (p_major pv)) v)"

subsection \<open>\<open>module.SplitPathVersion\<close>\<close>

text \<open>
  \<open>for i > 0 && (path[i-1] == '.' || '0' <= path[i-1] && path[i-1] <= '9')\<close>, with
  the flag \<open>dot\<close> set when a dot is passed.
\<close>

fun scan_back :: "string \<Rightarrow> nat \<Rightarrow> bool \<Rightarrow> nat \<times> bool" where
  "scan_back path 0 dot = (0, dot)"
| "scan_back path (Suc j) dot =
     (if path ! j = CHR ''.'' \<or> isDigit (path ! j)
      then scan_back path j (if path ! j = CHR ''.'' then True else dot)
      else (Suc j, dot))"

text \<open>\<open>for i > 0 && ('0' <= path[i-1] && path[i-1] <= '9') { i-- }\<close>\<close>

fun scan_back_digits :: "string \<Rightarrow> nat \<Rightarrow> nat" where
  "scan_back_digits path 0 = 0"
| "scan_back_digits path (Suc j) =
     (if isDigit (path ! j) then scan_back_digits path j else Suc j)"

definition splitGopkgIn :: "string \<Rightarrow> string \<times> string \<times> bool" where
  "splitGopkgIn path =
     (if \<not> HasPrefix path ''gopkg.in/'' then (path, '''', False)
      else (let i = length path;
                i = (if HasSuffix path ''-unstable'' then i - length ''-unstable'' else i);
                i = scan_back_digits path i
            in if i \<le> 1 \<or> path ! (i - 1) \<noteq> CHR ''v'' \<or> path ! (i - 2) \<noteq> CHR ''.''
               then (path, '''', False)
               else (let prefix = take (i - 2) path; pathMajor = drop (i - 2) path
                     in if length pathMajor \<le> 2 \<or>
                           pathMajor ! 2 = CHR ''0'' \<and> pathMajor \<noteq> ''.v0''
                        then (path, '''', False)
                        else (prefix, pathMajor, True))))"

definition SplitPathVersion :: "string \<Rightarrow> string \<times> string \<times> bool" where
  "SplitPathVersion path =
     (if HasPrefix path ''gopkg.in/'' then splitGopkgIn path
      else (let (i, dot) = scan_back path (length path) False
            in if i \<le> 1 \<or> i = length path \<or> path ! (i - 1) \<noteq> CHR ''v'' \<or>
                  path ! (i - 2) \<noteq> CHR ''/''
               then (path, '''', True)
               else (let prefix = take (i - 2) path; pathMajor = drop (i - 2) path
                     in if dot \<or> length pathMajor \<le> 2 \<or> pathMajor ! 2 = CHR ''0'' \<or>
                           pathMajor = ''/v1''
                        then (path, '''', False)
                        else (prefix, pathMajor, True))))"

section \<open>The coordinate algebra of package \<open>packages\<close>\<close>

record Package =
  Version :: string
  PkgDir :: string
  ModPrefix :: string

text \<open>
  \<open>JoinPathMajor(path, major)\<close>: a path under \<open>gopkg.in\<close> gets \<open>.major\<close> appended to
  its last segment, whatever the major token is; any other path gets a new segment
  \<open>/major\<close>, unless the token is \<open>v0\<close>, \<open>v1\<close> or empty.  One leading delimiter of the
  token is trimmed first.
\<close>

definition JoinPathMajor :: "string \<Rightarrow> string \<Rightarrow> string" where
  "JoinPathMajor path major =
     (if HasPrefix path ''gopkg.in'' then
        (let major = TrimPrefix major ''.'' in path @ ''.'' @ major)
      else
        (let major = TrimPrefix major ''/'' in
         if major = ''v0'' \<or> major = ''v1'' \<or> major = '''' then path
         else (let path = (if \<not> HasSuffix path ''/'' then path @ ''/'' else path)
               in path @ major)))"

definition Incompatible :: "Package \<Rightarrow> bool" where
  "Incompatible pkg = Contains (Version pkg) ''+incompatible''"

definition ModPath :: "Package \<Rightarrow> string" where
  "ModPath pkg =
     (if Incompatible pkg \<and> \<not> HasPrefix (ModPrefix pkg) ''gopkg.in'' then ModPrefix pkg
      else JoinPathMajor (ModPrefix pkg) (Major (Version pkg)))"

text \<open>
  \<open>FindModPath\<close>: the module path (prefix plus the major version met at the boundary) of
  the import path \<open>pkgpath\<close>, and whether \<open>pkgpath\<close> belongs to the package's module.
  \<open>modpathlen\<close> never exceeds \<open>len(pkgpath)\<close>, so no slice is out of range.
\<close>

definition FindModPath :: "Package \<Rightarrow> string \<Rightarrow> string \<times> bool" where
  "FindModPath pkg pkgpath =
     (if \<not> HasPrefix pkgpath (ModPrefix pkg) then ('''', False)
      else (let modpathlen = length (ModPrefix pkg);
                modpathlen = (if HasPrefix (drop modpathlen pkgpath) ''/''
                              then modpathlen + 1 else modpathlen);
                idx = Index (drop modpathlen pkgpath) ''/'';
                modpathlen = (if idx \<ge> 0 then modpathlen + nat idx else length pkgpath);
                (_, major, ok) = SplitPathVersion (take modpathlen pkgpath)
            in if ok then (JoinPathMajor (ModPrefix pkg) major, True)
               else (ModPrefix pkg, True)))"

text \<open>
  \<open>SplitSpec\<close>: \<open>strings.SplitN(spec, "@", 2)\<close> has two parts exactly when \<open>spec\<close> holds
  an \<open>@\<close>, and cuts at the first one.
\<close>

definition SplitSpec :: "string \<Rightarrow> string \<times> string" where
  "SplitSpec spec =
     (let i = Index spec ''@''
      in if i \<ge> 0 then (take (nat i) spec, drop (nat i + 1) spec) else (spec, ''''))"

section \<open>Errors\<close>

text \<open>
  The Go \<open>error\<close> values the commands return: the two the commands build with
  \<open>fmt.Errorf\<close>, the sentinel \<open>importpaths.ErrSkip\<close>, and \<open>External msg\<close> for an error
  a collaborator returned (the module proxy, the package loader, \<open>go get\<close>, the
  rewriter), which the commands pass on unchanged.
\<close>

datatype error =
    MissingPackageSpec
  | InvalidVersion string
  | ErrSkip
  | External string

section \<open>The dependency enumeration \<open>Direct\<close>\<close>

text \<open>
  The fields of \<open>packages.Module\<close> (of \<open>golang.org/x/tools\<close>) that \<open>Direct\<close> reads;
  \<open>mod_Replace\<close> holds the path of the replacing module, \<open>None\<close> for \<open>nil\<close>.  A loaded
  package is its \<open>Module\<close> pointer, \<open>None\<close> for \<open>nil\<close>.
\<close>

record Module =
  mod_Path :: string
  mod_Version :: string
  mod_Indirect :: bool
  mod_Replace :: "string option"
  mod_Main :: bool

text \<open>
  The loop of \<open>Direct\<close> over \<open>pkgs\<close>, with the slice \<open>direct\<close> and the map \<open>seen\<close>
  (a Go \<open>map[string]bool\<close> reads \<open>false\<close> at a missing key).
\<close>

fun Direct_loop :: "Module option list \<Rightarrow> Package list \<Rightarrow> (string \<Rightarrow> bool) \<Rightarrow> Package list" where
  "Direct_loop [] direct seen = direct"
| "Direct_loop (pkg # pkgs) direct seen =
     (case pkg of
        None \<Rightarrow> Direct_loop pkgs direct seen
      | Some m \<Rightarrow>
          if \<not> mod_Indirect m \<and> mod_Replace m = None \<and> \<not> mod_Main m \<and> \<not> seen (mod_Path m)
          then (let seen = seen(mod_Path m := True);
                    modprefix = mod_Path m;
                    modprefix = (case SplitPathVersion modprefix of
                                   (prefix, _, ok) \<Rightarrow> if ok then prefix else modprefix)
                in Direct_loop pkgs
                     (direct @ [\<lparr>Version = mod_Version m, PkgDir = '''', ModPrefix = modprefix\<rparr>])
                     seen)
          else Direct_loop pkgs direct seen)"

text \<open>
  \<open>Direct(dir)\<close>; the parameter \<open>load\<close> is \<open>packages.Load\<close> with the configuration
  \<open>Direct\<close> builds for \<open>dir\<close> and the pattern \<open>all\<close>.
\<close>

definition Direct :: "(string \<Rightarrow> error + Module option list) \<Rightarrow> string \<Rightarrow> error + Package list" where
  "Direct load dir =
     (case load dir of
        Inl err \<Rightarrow> Inl err
      | Inr pkgs \<Rightarrow> Inr (Direct_loop pkgs [] (\<lambda>_. False)))"

section \<open>The commands\<close>

subsection \<open>Collaborators\<close>

text \<open>
  \<open>modproxy.Module\<close>, as far as the commands read it.
\<close>

record ProxyModule =
  pm_Path :: string
  pm_Versions :: "string list"

text \<open>An element of the slice the list command ranges over: \<open>dep.Path\<close>, \<open>dep.Version\<close>.\<close>

record Dependency =
  dep_Path :: string
  dep_Version :: string

text \<open>\<open>importpaths.RewriteModuleOptions\<close> without its logging callback \<open>OnRewrite\<close>.\<close>

record RewriteModuleOptions =
  opt_PkgDir :: string
  opt_Prefix :: string
  opt_NewVersion :: string

text \<open>
  The mapping function handed to \<open>importpaths.Rewrite\<close>: from the file name and an
  import path to the lines it prints and its result (\<open>Inl ErrSkip\<close>: leave the import).
\<close>

type_synonym replace_fn = "string \<Rightarrow> string \<Rightarrow> string list \<times> (error + string)"

text \<open>
  The commands call packages of the repository that are not among the source files
  (\<open>modproxy\<close>, \<open>importpaths\<close>, the later \<open>packages\<close> API), the process environment
  and the \<open>go\<close> tool.  They are parameters of the model, collected in one record; a
  function that can fail returns its error as a value.
\<close>

record Collab =
  modproxy_QueryPackage :: "string \<Rightarrow> bool \<Rightarrow> error + ProxyModule"
  modproxy_Latest :: "string \<Rightarrow> bool \<Rightarrow> error + ProxyModule"
  MaxVersion :: "ProxyModule \<Rightarrow> string \<Rightarrow> bool \<Rightarrow> string"
  packages_ModPrefix :: "string \<Rightarrow> string"
  packages_SplitPath :: "string \<Rightarrow> string \<Rightarrow> string \<times> string \<times> bool"
  packages_JoinPath :: "string \<Rightarrow> string \<Rightarrow> string \<Rightarrow> string"
  packages_Direct :: "string \<Rightarrow> error + Dependency list"
  run_go_get :: "string \<Rightarrow> string \<Rightarrow> error option"
  importpaths_RewriteModule :: "string \<Rightarrow> RewriteModuleOptions \<Rightarrow> error option"
  importpaths_Rewrite :: "string \<Rightarrow> replace_fn \<Rightarrow> error option"
  GOPRIVATE :: string
  MatchPrefixPatterns :: "string \<Rightarrow> string \<Rightarrow> bool"
  Compare :: "string \<Rightarrow> string \<Rightarrow> int"

text \<open>
  What a command does besides returning: the lines it prints and the calls it makes.
  \<open>LookupFailed path err\<close> is the line \<open>path: failed: err\<close> on standard error.
\<close>

datatype event =
    Stdout string
  | LookupFailed string error
  | GoGet string string
  | RewriteModule string RewriteModuleOptions
  | Rewrite string

subsection \<open>\<open>getcmd\<close> (main.go)\<close>

record get_flags =
  get_dir :: string
  get_rewrite :: bool
  get_goget :: bool
  get_pre :: bool
  get_cached :: bool

text \<open>
  The \<open>switch query\<close> of \<open>getcmd\<close>: the error it returns, or the values of \<open>version\<close>
  and \<open>query\<close> after it.
\<close>

definition getcmd_version :: "Collab \<Rightarrow> ProxyModule \<Rightarrow> string \<Rightarrow> bool \<Rightarrow> bool \<Rightarrow> error + string \<times> string" where
  "getcmd_version env m query pre cached =
     (if query = '''' then Inr (MaxVersion env m '''' pre, query)
      else if query = ''latest'' then
        (case modproxy_Latest env (pm_Path m) cached of
           Inl err \<Rightarrow> Inl err
         | Inr latest \<Rightarrow> (let version = MaxVersion env latest '''' pre in Inr (version, version)))
      else if \<not> IsValid query then Inl (InvalidVersion query)
      else (let v = MaxVersion env m query pre in
            if v \<noteq> '''' then Inr (v, query) else Inr (query, query)))"

text \<open>The \<open>go get\<close> step shared by both versions of the command.\<close>

definition go_get_step :: "Collab \<Rightarrow> string \<Rightarrow> string \<Rightarrow> string \<Rightarrow> string \<Rightarrow> string \<Rightarrow> event list \<times> error option" where
  "go_get_step env dir modprefix version pkgdir query =
     (let spec = packages_JoinPath env modprefix version pkgdir;
          spec = (if query \<noteq> '''' then spec @ ''@'' @ query else spec)
      in ([Stdout (''go get '' @ spec), GoGet dir spec], run_go_get env dir spec))"

text \<open>
  The part of \<open>getcmd\<close> after the switch: \<open>go get\<close>, then the rewrite of the
  import paths.
\<close>

definition getcmd_apply :: "Collab \<Rightarrow> get_flags \<Rightarrow> string \<Rightarrow> string \<Rightarrow> string \<Rightarrow> string \<Rightarrow> event list \<times> error option" where
  "getcmd_apply env fl modprefix pkgdir version query =
     (let (evs, err) =
            (if get_goget fl
             then go_get_step env (get_dir fl) modprefix version pkgdir query
             else ([], None))
      in if err \<noteq> None then (evs, err)
         else if \<not> get_rewrite fl then (evs, None)
         else (let opts = \<lparr>opt_PkgDir = pkgdir, opt_Prefix = modprefix,
                             opt_NewVersion = version\<rparr>
               in (evs @ [RewriteModule (get_dir fl) opts],
                   importpaths_RewriteModule env (get_dir fl) opts)))"

text \<open>
  \<open>getcmd\<close> after \<open>fset.Parse\<close>: \<open>fl\<close> holds the flags and \<open>args\<close> the remaining
  arguments.  The result is what the command did and the error it returns
  (\<open>None\<close> for \<open>nil\<close>).
\<close>

definition getcmd :: "Collab \<Rightarrow> get_flags \<Rightarrow> string list \<Rightarrow> event list \<times> error option" where
  "getcmd env fl args =
     (case args of
        [spec] \<Rightarrow>
          (let (pkgpath, query) = SplitSpec spec in
           case modproxy_QueryPackage env pkgpath (get_cached fl) of
             Inl err \<Rightarrow> ([], Some err)
           | Inr m \<Rightarrow>
               (let modprefix = packages_ModPrefix env (pm_Path m);
                    pkgdir = fst (snd (packages_SplitPath env modprefix pkgpath))
                in case getcmd_version env m query (get_pre fl) (get_cached fl) of
                     Inl err \<Rightarrow> ([], Some err)
                   | Inr (version, query) \<Rightarrow>
                       getcmd_apply env fl modprefix pkgdir version query))
      | _ \<Rightarrow> ([], Some MissingPackageSpec))"

subsection \<open>\<open>get\<close> (the earlier main.go)\<close>

text \<open>The \<open>switch query\<close> of \<open>get\<close>, which has a case for \<open>master\<close> and \<open>default\<close>.\<close>

definition get_version :: "Collab \<Rightarrow> ProxyModule \<Rightarrow> string \<Rightarrow> bool \<Rightarrow> bool \<Rightarrow> error + string \<times> string" where
  "get_version env m query pre cached =
     (if query = '''' then Inr (MaxVersion env m '''' pre, query)
      else if query = ''latest'' then
        (case modproxy_Latest env (pm_Path m) cached of
           Inl err \<Rightarrow> Inl err
         | Inr latest \<Rightarrow> (let version = MaxVersion env latest '''' pre in Inr (version, version)))
      else if query = ''master'' \<or> query = ''default'' then
        (case modproxy_Latest env (pm_Path m) cached of
           Inl err \<Rightarrow> Inl err
         | Inr latest \<Rightarrow> Inr (MaxVersion env latest '''' pre, query))
      else if \<not> IsValid query then Inl (InvalidVersion query)
      else (let v = MaxVersion env m query pre in
            if v \<noteq> '''' then Inr (v, query) else Inr (query, query)))"

text \<open>
  The function literal \<open>get\<close> passes to \<open>importpaths.Rewrite\<close>; it closes over
  \<open>modprefix\<close>, \<open>pkgdir\<close> and \<open>version\<close>.
\<close>

definition get_replace :: "Collab \<Rightarrow> string \<Rightarrow> string \<Rightarrow> string \<Rightarrow> replace_fn" where
  "get_replace env modprefix pkgdir version name path =
     (let (_, pkgdir0, ok) = packages_SplitPath env modprefix path in
      if \<not> ok then ([], Inl ErrSkip)
      else if pkgdir \<noteq> '''' \<and> pkgdir \<noteq> pkgdir0 then ([], Inl ErrSkip)
      else (let newpath = packages_JoinPath env modprefix version pkgdir0 in
            if newpath = path then ([], Inl ErrSkip)
            else ([name @ '': '' @ path @ '' -> '' @ newpath], Inr newpath)))"

text \<open>The part of \<open>get\<close> after the switch.\<close>

definition get_apply :: "Collab \<Rightarrow> get_flags \<Rightarrow> string \<Rightarrow> string \<Rightarrow> string \<Rightarrow> string \<Rightarrow> event list \<times> error option" where
  "get_apply env fl modprefix pkgdir version query =
     (let (evs, err) =
            (if get_goget fl
             then go_get_step env (get_dir fl) modprefix version pkgdir query
             else ([], None))
      in if err \<noteq> None then (evs, err)
         else if \<not> get_rewrite fl then (evs, None)
         else (evs @ [Rewrite (get_dir fl)],
               importpaths_Rewrite env (get_dir fl)
                 (get_replace env modprefix pkgdir version)))"

definition get :: "Collab \<Rightarrow> get_flags \<Rightarrow> string list \<Rightarrow> event list \<times> error option" where
  "get env fl args =
     (case args of
        [spec] \<Rightarrow>
          (let (pkgpath, query) = SplitSpec spec in
           case modproxy_QueryPackage env pkgpath (get_cached fl) of
             Inl err \<Rightarrow> ([], Some err)
           | Inr m \<Rightarrow>
               (let modprefix = packages_ModPrefix env (pm_Path m);
                    pkgdir = fst (snd (packages_SplitPath env modprefix pkgpath))
                in case get_version env m query (get_pre fl) (get_cached fl) of
                     Inl err \<Rightarrow> ([], Some err)
                   | Inr (version, query) \<Rightarrow>
                       get_apply env fl modprefix pkgdir version query))
      | _ \<Rightarrow> ([], Some MissingPackageSpec))"

subsection \<open>\<open>listcmd\<close> (main.go)\<close>

record list_flags =
  list_dir :: string
  list_pre :: bool
  list_cached :: bool
  list_major :: bool

text \<open>
  The function literal \<open>listcmd\<close> hands to \<open>group.Go\<close> for the dependency \<open>dep\<close>: what
  it prints and the error it returns to the group.
\<close>

definition list_task :: "Collab \<Rightarrow> list_flags \<Rightarrow> Dependency \<Rightarrow> event list \<times> error option" where
  "list_task env fl dep =
     (case modproxy_Latest env (dep_Path dep) (list_cached fl) of
        Inl err \<Rightarrow> ([LookupFailed (dep_Path dep) err], None)
      | Inr m \<Rightarrow>
          (let v = MaxVersion env m '''' (list_pre fl) in
           if list_major fl \<and> Compare env (Major v) (Major (dep_Version dep)) \<le> 0 then ([], None)
           else if Compare env v (dep_Version dep) \<le> 0 then ([], None)
           else ([Stdout (dep_Path dep @ '': '' @ dep_Version dep @ '' [latest '' @ v @ '']'')],
                 None)))"

text \<open>
  \<open>errgroup.Group.Wait\<close> returns the first non-nil error a task returned, \<open>nil\<close> when
  there is none; its argument lists the tasks' results in the order they finished.
\<close>

fun Wait :: "error option list \<Rightarrow> error option" where
  "Wait [] = None"
| "Wait (None # rs) = Wait rs"
| "Wait (Some err # rs) = Some err"

text \<open>
  \<open>listcmd\<close> after \<open>fset.Parse\<close>.  The group runs the tasks concurrently (at most three
  at a time, one when \<open>cached\<close> is off), so the order in which they finish is not fixed
  by the program: \<open>sched\<close> is that order, a rearrangement of the tasks started.  The
  result is each finished task with what it printed, and the value of \<open>group.Wait()\<close>.
\<close>

definition list_started :: "Collab \<Rightarrow> Dependency list \<Rightarrow> Dependency list" where
  "list_started env dependencies =
     filter (\<lambda>dep. \<not> MatchPrefixPatterns env (GOPRIVATE env) (dep_Path dep)) dependencies"

definition listcmd :: "Collab \<Rightarrow> list_flags \<Rightarrow> (Dependency list \<Rightarrow> Dependency list) \<Rightarrow> (Dependency \<times> event list) list \<times> error option" where
  "listcmd env fl sched =
     (case packages_Direct env (list_dir fl) of
        Inl err \<Rightarrow> ([], Some err)
      | Inr dependencies \<Rightarrow>
          (let finished = sched (list_started env dependencies)
           in (map (\<lambda>dep. (dep, fst (list_task env fl dep))) finished,
               Wait (map (\<lambda>dep. snd (list_task env fl dep)) finished))))"

section \<open>Notions used to state the properties\<close>

text \<open>
  The condition under which the loop of \<open>Direct\<close> considers a module at all (leaving
  \<open>seen\<close> aside), and the record it appends for a module.
\<close>

definition direct_dep :: "Module \<Rightarrow> bool" where
  "direct_dep m = (\<not> mod_Indirect m \<and> mod_Replace m = None \<and> \<not> mod_Main m)"

definition Package_of :: "Module \<Rightarrow> Package" where
  "Package_of m =
     \<lparr>Version = mod_Version m, PkgDir = '''',
      ModPrefix = (case SplitPathVersion (mod_Path m) of
                     (prefix, _, ok) \<Rightarrow> if ok then prefix else mod_Path m)\<rparr>"

subsection \<open>A sample environment\<close>

text \<open>
  One concrete set of collaborators, on which the commands are evaluated below: a proxy
  that knows two modules, a \<open>go get\<close> and a rewriter that succeed, and path functions
  composed from \<open>FindModPath\<close>, \<open>JoinPathMajor\<close> and \<open>semver.Major\<close>.  The properties
  themselves are proved for every environment.
\<close>

definition demo_ModPrefix :: "string \<Rightarrow> string" where
  "demo_ModPrefix modpath =
     (case SplitPathVersion modpath of (prefix, _, ok) \<Rightarrow> if ok then prefix else modpath)"

definition demo_SplitPath :: "string \<Rightarrow> string \<Rightarrow> string \<times> string \<times> bool" where
  "demo_SplitPath modprefix pkgpath =
     (let (modpath, ok) = FindModPath \<lparr>Version = '''', PkgDir = '''', ModPrefix = modprefix\<rparr> pkgpath
      in if \<not> ok then ('''', '''', False)
         else (modpath, TrimPrefix (TrimPrefix pkgpath modpath) ''/'', True))"

definition demo_JoinPath :: "string \<Rightarrow> string \<Rightarrow> string \<Rightarrow> string" where
  "demo_JoinPath modprefix version pkgdir =
     (let modpath = JoinPathMajor modprefix (Major version)
      in if pkgdir = '''' then modpath else modpath @ ''/'' @ pkgdir)"

definition demo_proxy :: "string \<Rightarrow> error + ProxyModule" where
  "demo_proxy path =
     (if path = ''github.com/pkg/errors''
      then Inr \<lparr>pm_Path = ''github.com/pkg/errors'', pm_Versions = [''v0.9.1'', ''v3.1.0'']\<rparr>
      else if path = ''golang.org/x/mod''
      then Inr \<lparr>pm_Path = ''golang.org/x/mod'', pm_Versions = [''v0.17.0'']\<rparr>
      else Inl (External ''not found''))"

definition demo_MaxVersion :: "ProxyModule \<Rightarrow> string \<Rightarrow> bool \<Rightarrow> string" where
  "demo_MaxVersion m prefix pre =
     (case filter (\<lambda>v. prefix = '''' \<or> Major v = Major prefix) (pm_Versions m) of
        [] \<Rightarrow> ''''
      | v # vs \<Rightarrow> last (v # vs))"

definition demo_deps :: "Dependency list" where
  "demo_deps =
     [\<lparr>dep_Path = ''github.com/pkg/errors'', dep_Version = ''v0.9.1''\<rparr>,
      \<lparr>dep_Path = ''example.com/gone'', dep_Version = ''v1.0.0''\<rparr>,
      \<lparr>dep_Path = ''golang.org/x/mod'', dep_Version = ''v0.17.0''\<rparr>]"

definition demo_env :: Collab where
  "demo_env =
     \<lparr>modproxy_QueryPackage =
        (\<lambda>pkgpath cached.
           if HasPrefix pkgpath ''github.com/pkg/errors'' then demo_proxy ''github.com/pkg/errors''
           else demo_proxy pkgpath),
      modproxy_Latest = (\<lambda>modpath cached. demo_proxy modpath),
      MaxVersion = demo_MaxVersion,
      packages_ModPrefix = demo_ModPrefix,
      packages_SplitPath = demo_SplitPath,
      packages_JoinPath = demo_JoinPath,
      packages_Direct = (\<lambda>dir. Inr demo_deps),
      run_go_get = (\<lambda>dir spec. None),
      importpaths_RewriteModule = (\<lambda>dir opts. None),
      importpaths_Rewrite = (\<lambda>dir f. None),
      GOPRIVATE = '''',
      MatchPrefixPatterns = (\<lambda>globs target. False),
      Compare = (\<lambda>v w. if v = w then 0 else 1)\<rparr>"

definition demo_flags :: get_flags where
  "demo_flags = \<lparr>get_dir = ''.'', get_rewrite = True, get_goget = True, get_pre = False,
                 get_cached = True\<rparr>"

definition demo_list_flags :: list_flags where
  "demo_list_flags = \<lparr>list_dir = ''.'', list_pre = False, list_cached = True, list_major = False\<rparr>"

text \<open>
  What \<open>packages.Load\<close> may return for a project: two packages of one module, a
  package without module, an indirect module and a \<open>gopkg.in\<close> module.
\<close>

definition demo_pkgs :: "Module option list" where
  "demo_pkgs =
     [Some \<lparr>mod_Path = ''github.com/pkg/errors'', mod_Version = ''v0.9.1'',
             mod_Indirect = False, mod_Replace = None, mod_Main = False\<rparr>,
      None,
      Some \<lparr>mod_Path = ''github.com/pkg/errors'', mod_Version = ''v0.9.1'',
             mod_Indirect = False, mod_Replace = None, mod_Main = False\<rparr>,
      Some \<lparr>mod_Path = ''golang.org/x/sys'', mod_Version = ''v0.20.0'',
             mod_Indirect = True, mod_Replace = None, mod_Main = False\<rparr>,
      Some \<lparr>mod_Path = ''gopkg.in/yaml.v2'', mod_Version = ''v2.4.0'',
             mod_Indirect = False, mod_Replace = None, mod_Main = False\<rparr>]"

definition demo_load :: "string \<Rightarrow> error + Module option list" where
  "demo_load dir = Inr demo_pkgs"

section \<open>The string primitives meet their descriptions\<close>

lemma HasPrefix_iff: "HasPrefix s p \<longleftrightarrow> (\<exists>r. s = p @ r)"
  unfolding HasPrefix_def
  by (metis append_eq_conv_conj append_take_drop_id)

lemma Contains_iff: "Contains s sub \<longleftrightarrow> (\<exists>a b. s = a @ sub @ b)"
proof (induction s)
  case Nil
  then show ?case by auto
next
  case (Cons c s)
  show ?case
  proof
    assume "Contains (c # s) sub"
    then consider "HasPrefix (c # s) sub" | "Contains s sub" by auto
    then show "\<exists>a b. c # s = a @ sub @ b"
    proof cases
      case 1
      then obtain r where "c # s = sub @ r" by (auto simp: HasPrefix_iff)
      then have "c # s = [] @ sub @ r" by simp
      then show ?thesis by blast
    next
      case 2
      then obtain a b where "s = a @ sub @ b" using Cons.IH by blast
      then have "c # s = (c # a) @ sub @ b" by simp
      then show ?thesis by blast
    qed
  next
    assume "\<exists>a b. c # s = a @ sub @ b"
    then obtain a b where ab: "c # s = a @ sub @ b" by blast
    show "Contains (c # s) sub"
    proof (cases a)
      case Nil
      with ab have "HasPrefix (c # s) sub" by (auto simp: HasPrefix_iff)
      then show ?thesis by simp
    next
      case (Cons x a')
      with ab have "s = a' @ sub @ b" by simp
      then have "Contains s sub" using Cons.IH by blast
      then show ?thesis by simp
    qed
  qed
qed

lemma TrimPrefix_append [simp]: "TrimPrefix (d @ t) d = t"
  by (simp add: TrimPrefix_def HasPrefix_def)

lemma TrimPrefix_no_prefix: "\<not> HasPrefix t d \<Longrightarrow> TrimPrefix t d = t"
  by (simp add: TrimPrefix_def)

section \<open>Properties of \<open>JoinPathMajor\<close>\<close>

text \<open>
  Claim C3.  The claim reads: for every prefix \<open>p\<close>, the major tokens \<open>v0\<close>, \<open>v1\<close> and
  the absent token all encode to \<open>p\<close> itself.  \<open>JoinPathMajor\<close> does so for every prefix
  outside \<open>gopkg.in\<close>.  Under \<open>gopkg.in\<close> its first branch appends the token whatever
  it is, so \<open>v0\<close> and \<open>v1\<close> give \<open>p.v0\<close> and \<open>p.v1\<close>, as that host's convention
  requires.
\<close>

theorem JoinPathMajor_unit_major:
  "JoinPathMajor p ''v0'' = (if HasPrefix p ''gopkg.in'' then p @ ''.v0'' else p) \<and>
   JoinPathMajor p ''v1'' = (if HasPrefix p ''gopkg.in'' then p @ ''.v1'' else p) \<and>
   (\<not> HasPrefix p ''gopkg.in'' \<longrightarrow> JoinPathMajor p '''' = p)"
  by (simp add: JoinPathMajor_def TrimPrefix_def HasPrefix_def)

theorem JoinPathMajor_unit_major_witness:
  "\<not> HasPrefix ''github.com/pkg/errors'' ''gopkg.in'' \<and>
   JoinPathMajor ''github.com/pkg/errors'' ''v0'' = ''github.com/pkg/errors'' \<and>
   JoinPathMajor ''github.com/pkg/errors'' ''v1'' = ''github.com/pkg/errors'' \<and>
   JoinPathMajor ''github.com/pkg/errors'' '''' = ''github.com/pkg/errors''"
proof -
  have h: "\<not> HasPrefix ''github.com/pkg/errors'' ''gopkg.in''"
    by (simp add: HasPrefix_def)
  from JoinPathMajor_unit_major [of "''github.com/pkg/errors''"] h show ?thesis
    by simp
qed

text \<open>The claim as stated fails at the prefix \<open>gopkg.in/yaml\<close> with the token \<open>v1\<close>.\<close>

theorem JoinPathMajor_unit_major_counterexample:
  "JoinPathMajor ''gopkg.in/yaml'' ''v1'' = ''gopkg.in/yaml.v1'' \<and>
   JoinPathMajor ''gopkg.in/yaml'' ''v1'' \<noteq> ''gopkg.in/yaml''"
  by (simp add: JoinPathMajor_def TrimPrefix_def HasPrefix_def)

text \<open>
  Claim C4.  \<open>JoinPathMajor\<close> appends the major version as the path convention asks:
  \<open>github.com/pkg/errors\<close> with \<open>v3\<close> gives \<open>github.com/pkg/errors/v3\<close> and
  \<open>gopkg.in/yaml\<close> with \<open>v2\<close> gives \<open>gopkg.in/yaml.v2\<close>.  In general, outside
  \<open>gopkg.in\<close> a token other than \<open>v0\<close>, \<open>v1\<close> and the empty one becomes a new segment,
  the slash being inserted only when the path does not end in one; under \<open>gopkg.in\<close> the
  token is appended after a dot.
\<close>

theorem JoinPathMajor_appends_suffix:
  "JoinPathMajor ''github.com/pkg/errors'' ''v3'' = ''github.com/pkg/errors/v3'' \<and>
   JoinPathMajor ''gopkg.in/yaml'' ''v2'' = ''gopkg.in/yaml.v2'' \<and>
   (\<not> HasPrefix p ''gopkg.in'' \<and> \<not> HasPrefix m ''/'' \<and> m \<noteq> ''v0'' \<and> m \<noteq> ''v1'' \<and> m \<noteq> ''''
      \<longrightarrow> JoinPathMajor p m = (if HasSuffix p ''/'' then p @ m else p @ ''/'' @ m)) \<and>
   (HasPrefix p ''gopkg.in'' \<and> \<not> HasPrefix m ''.'' \<longrightarrow> JoinPathMajor p m = p @ ''.'' @ m)"
proof -
  have "JoinPathMajor ''github.com/pkg/errors'' ''v3'' = ''github.com/pkg/errors/v3''"
    by (simp add: JoinPathMajor_def TrimPrefix_def HasPrefix_def HasSuffix_def)
  moreover have "JoinPathMajor ''gopkg.in/yaml'' ''v2'' = ''gopkg.in/yaml.v2''"
    by (simp add: JoinPathMajor_def TrimPrefix_def HasPrefix_def)
  moreover have "JoinPathMajor p m = (if HasSuffix p ''/'' then p @ m else p @ ''/'' @ m)"
    if "\<not> HasPrefix p ''gopkg.in''" "\<not> HasPrefix m ''/''" "m \<noteq> ''v0''" "m \<noteq> ''v1''" "m \<noteq> ''''"
    using that by (simp add: JoinPathMajor_def TrimPrefix_no_prefix)
  moreover have "JoinPathMajor p m = p @ ''.'' @ m"
    if "HasPrefix p ''gopkg.in''" "\<not> HasPrefix m ''.''"
    using that by (simp add: JoinPathMajor_def TrimPrefix_no_prefix)
  ultimately show ?thesis by blast
qed

theorem JoinPathMajor_appends_suffix_witness:
  "(\<not> HasPrefix ''example.com/mod/'' ''gopkg.in'' \<and> \<not> HasPrefix ''v5'' ''/'' \<and>
    ''v5'' \<noteq> ''v0'' \<and> ''v5'' \<noteq> ''v1'' \<and> ''v5'' \<noteq> '''') \<and>
   JoinPathMajor ''example.com/mod/'' ''v5'' = ''example.com/mod/v5'' \<and>
   (HasPrefix ''gopkg.in/yaml'' ''gopkg.in'' \<and> \<not> HasPrefix ''v3'' ''.'') \<and>
   JoinPathMajor ''gopkg.in/yaml'' ''v3'' = ''gopkg.in/yaml.v3''"
proof -
  have h1: "\<not> HasPrefix ''example.com/mod/'' ''gopkg.in'' \<and> \<not> HasPrefix ''v5'' ''/'' \<and>
    ''v5'' \<noteq> ''v0'' \<and> ''v5'' \<noteq> ''v1'' \<and> ''v5'' \<noteq> ''''"
    by (simp add: HasPrefix_def)
  have h2: "HasPrefix ''gopkg.in/yaml'' ''gopkg.in'' \<and> \<not> HasPrefix ''v3'' ''.''"
    by (simp add: HasPrefix_def)
  have s: "HasSuffix ''example.com/mod/'' ''/''"
    by (simp add: HasSuffix_def)
  from JoinPathMajor_appends_suffix [of "''example.com/mod/''" "''v5''"] h1 s
  have a: "JoinPathMajor ''example.com/mod/'' ''v5'' = ''example.com/mod/v5''"
    by simp
  from JoinPathMajor_appends_suffix [of "''gopkg.in/yaml''" "''v3''"] h2
  have b: "JoinPathMajor ''gopkg.in/yaml'' ''v3'' = ''gopkg.in/yaml.v3''"
    by simp
  from h1 h2 a b show ?thesis by blast
qed

text \<open>
  The major token the package passes to \<open>JoinPathMajor\<close> from a version is the result
  of \<open>semver.Major\<close>, which never begins with a delimiter.
\<close>

lemma parse_Some_starts_v: "parse v = Some pv \<Longrightarrow> \<exists>r. v = CHR ''v'' # r"
  by (cases v) (auto simp: parse_def split: if_splits)

lemma Major_no_delimiter:
  "\<not> HasPrefix (Major v) ''.'' \<and> \<not> HasPrefix (Major v) ''/''"
proof (cases "parse v")
  case None
  then show ?thesis by (simp add: Major_def HasPrefix_def)
next
  case (Some pv)
  then obtain r where "v = CHR ''v'' # r" using parse_Some_starts_v by blast
  with Some show ?thesis by (simp add: Major_def HasPrefix_def)
qed

text \<open>
  Claim C9.  \<open>JoinPathMajor\<close> accepts the major token with or without the leading
  delimiter of the path's convention and gives the same result: for a path under
  \<open>gopkg.in\<close> and a token \<open>t\<close>, the tokens \<open>.t\<close> and \<open>t\<close> encode alike; for any
  other path, the tokens \<open>/t\<close> and \<open>t\<close> encode alike.  Here \<open>t\<close> is the token
  without its delimiter, the form \<open>semver.Major\<close> returns; \<open>strings.TrimPrefix\<close>
  removes the one delimiter put in front of it.
\<close>

theorem JoinPathMajor_leading_delimiter:
  "(HasPrefix p ''gopkg.in'' \<and> \<not> HasPrefix t ''.''
      \<longrightarrow> JoinPathMajor p (''.'' @ t) = JoinPathMajor p t) \<and>
   (\<not> HasPrefix p ''gopkg.in'' \<and> \<not> HasPrefix t ''/''
      \<longrightarrow> JoinPathMajor p (''/'' @ t) = JoinPathMajor p t)"
proof -
  have dot: "TrimPrefix (''.'' @ t) ''.'' = t" and slash: "TrimPrefix (''/'' @ t) ''/'' = t"
    by (rule TrimPrefix_append)+
  show ?thesis
    unfolding JoinPathMajor_def dot slash
    by (simp add: TrimPrefix_no_prefix)
qed

theorem JoinPathMajor_leading_delimiter_witness:
  "(HasPrefix ''gopkg.in/yaml'' ''gopkg.in'' \<and> \<not> HasPrefix ''v2'' ''.'') \<and>
   JoinPathMajor ''gopkg.in/yaml'' ''.v2'' = JoinPathMajor ''gopkg.in/yaml'' ''v2'' \<and>
   (\<not> HasPrefix ''github.com/pkg/errors'' ''gopkg.in'' \<and> \<not> HasPrefix ''v3'' ''/'') \<and>
   JoinPathMajor ''github.com/pkg/errors'' ''/v3'' = JoinPathMajor ''github.com/pkg/errors'' ''v3''"
proof -
  have h1: "HasPrefix ''gopkg.in/yaml'' ''gopkg.in'' \<and> \<not> HasPrefix ''v2'' ''.''"
    by (simp add: HasPrefix_def)
  have h2: "\<not> HasPrefix ''github.com/pkg/errors'' ''gopkg.in'' \<and> \<not> HasPrefix ''v3'' ''/''"
    by (simp add: HasPrefix_def)
  from JoinPathMajor_leading_delimiter [of "''gopkg.in/yaml''" "''v2''"] h1
  have a: "JoinPathMajor ''gopkg.in/yaml'' ''.v2'' = JoinPathMajor ''gopkg.in/yaml'' ''v2''"
    by simp
  from JoinPathMajor_leading_delimiter [of "''github.com/pkg/errors''" "''v3''"] h2
  have b: "JoinPathMajor ''github.com/pkg/errors'' ''/v3'' = JoinPathMajor ''github.com/pkg/errors'' ''v3''"
    by simp
  from h1 h2 a b show ?thesis by blast
qed

section \<open>Properties of \<open>ModPath\<close> and \<open>FindModPath\<close>\<close>

text \<open>
  Claim C2.  A package whose version holds the marker \<open>+incompatible\<close> and whose module
  prefix is outside \<open>gopkg.in\<close> has its bare module prefix as module path: no major
  version is appended, whatever the major number of the version is.
\<close>

theorem ModPath_incompatible:
  assumes "Contains (Version pkg) ''+incompatible''"
    and "\<not> HasPrefix (ModPrefix pkg) ''gopkg.in''"
  shows "ModPath pkg = ModPrefix pkg"
  using assms by (simp add: ModPath_def Incompatible_def)

theorem ModPath_incompatible_witness:
  "Contains ''v2.0.0+incompatible'' ''+incompatible'' \<and>
   \<not> HasPrefix ''github.com/foo/bar'' ''gopkg.in'' \<and>
   Major ''v2.0.0+incompatible'' = ''v2'' \<and>
   ModPath \<lparr>Version = ''v2.0.0+incompatible'', PkgDir = '''', ModPrefix = ''github.com/foo/bar''\<rparr>
     = ''github.com/foo/bar''"
proof -
  have c: "Contains ''v2.0.0+incompatible'' ''+incompatible''"
    by (simp add: HasPrefix_def)
  have p: "\<not> HasPrefix ''github.com/foo/bar'' ''gopkg.in''"
    by (simp add: HasPrefix_def)
  have m: "Major ''v2.0.0+incompatible'' = ''v2''"
    by code_simp
  from ModPath_incompatible [of "\<lparr>Version = ''v2.0.0+incompatible'', PkgDir = '''', ModPrefix = ''github.com/foo/bar''\<rparr>"] c p m
  show ?thesis by simp
qed

text \<open>
  Claim C1.  The claim reads: \<open>FindModPath\<close> answers \<open>ok = false\<close> when the import path
  does not start with the module prefix at a path-segment boundary, so that \<open>foo/bar\<close>
  is not matched by the prefix \<open>foo/ba\<close>.  The code tests \<open>strings.HasPrefix\<close> only:
  its \<open>ok\<close> is exactly that raw prefix test, and for \<open>foo/bar\<close> against \<open>foo/ba\<close> it
  returns the module path \<open>foo/ba\<close> with \<open>ok = true\<close>.
\<close>

theorem FindModPath_ok_is_raw_prefix:
  "snd (FindModPath pkg pkgpath) = HasPrefix pkgpath (ModPrefix pkg) \<and>
   FindModPath \<lparr>Version = v, PkgDir = d, ModPrefix = ''foo/ba''\<rparr> ''foo/bar'' = (''foo/ba'', True)"
proof
  show "snd (FindModPath pkg pkgpath) = HasPrefix pkgpath (ModPrefix pkg)"
    by (simp add: FindModPath_def Let_def split: prod.splits)
next
  have "SplitPathVersion ''foo/bar'' = (''foo/bar'', '''', True)"
    by code_simp
  then show "FindModPath \<lparr>Version = v, PkgDir = d, ModPrefix = ''foo/ba''\<rparr> ''foo/bar'' = (''foo/ba'', True)"
    by (simp add: FindModPath_def HasPrefix_def JoinPathMajor_def TrimPrefix_def)
qed

section \<open>Properties of \<open>Direct\<close>\<close>

text \<open>
  The loop appends the records of a list of modules \<open>ms\<close> that are taken from the
  loaded packages, qualify as direct dependencies, have pairwise different paths, and
  whose paths are those of all qualifying modules not seen before.
\<close>

lemma Direct_loop_invariant:
  "\<exists>ms. Direct_loop pkgs direct seen = direct @ map Package_of ms \<and>
        distinct (map mod_Path ms) \<and>
        set ms \<subseteq> {m. Some m \<in> set pkgs \<and> direct_dep m} \<and>
        set (map mod_Path ms) =
          mod_Path ` {m. Some m \<in> set pkgs \<and> direct_dep m \<and> \<not> seen (mod_Path m)}"
proof (induction pkgs arbitrary: direct seen)
  case Nil
  have "Direct_loop [] direct seen = direct @ map Package_of []" by simp
  then show ?case by force
next
  case (Cons pkg pkgs)
  show ?case
  proof (cases pkg)
    case None
    from Cons.IH [of direct seen] obtain ms where
      "Direct_loop pkgs direct seen = direct @ map Package_of ms"
      "distinct (map mod_Path ms)"
      "set ms \<subseteq> {m. Some m \<in> set pkgs \<and> direct_dep m}"
      "set (map mod_Path ms) = mod_Path ` {m. Some m \<in> set pkgs \<and> direct_dep m \<and> \<not> seen (mod_Path m)}"
      by blast
    with None show ?thesis
      by (intro exI [of _ ms]) auto
  next
    case (Some m)
    show ?thesis
    proof (cases "direct_dep m \<and> \<not> seen (mod_Path m)")
      case False
      from Cons.IH [of direct seen] obtain ms where ms:
        "Direct_loop pkgs direct seen = direct @ map Package_of ms"
        "distinct (map mod_Path ms)"
        "set ms \<subseteq> {m. Some m \<in> set pkgs \<and> direct_dep m}"
        "set (map mod_Path ms) = mod_Path ` {m. Some m \<in> set pkgs \<and> direct_dep m \<and> \<not> seen (mod_Path m)}"
        by blast
      from False Some have step: "Direct_loop (pkg # pkgs) direct seen = Direct_loop pkgs direct seen"
        by (auto simp: direct_dep_def)
      have "mod_Path ` {m'. Some m' \<in> set (pkg # pkgs) \<and> direct_dep m' \<and> \<not> seen (mod_Path m')}
          = mod_Path ` {m'. Some m' \<in> set pkgs \<and> direct_dep m' \<and> \<not> seen (mod_Path m')}"
        using False Some by auto
      with ms step show ?thesis
        by (intro exI [of _ ms]) auto
    next
      case True
      let ?seen = "seen(mod_Path m := True)"
      let ?direct = "direct @ [Package_of m]"
      from True Some have step:
        "Direct_loop (pkg # pkgs) direct seen = Direct_loop pkgs ?direct ?seen"
        by (simp add: direct_dep_def Package_of_def Let_def split: prod.splits)
      from Cons.IH [of ?direct ?seen] obtain ms where ms:
        "Direct_loop pkgs ?direct ?seen = ?direct @ map Package_of ms"
        "distinct (map mod_Path ms)"
        "set ms \<subseteq> {m. Some m \<in> set pkgs \<and> direct_dep m}"
        "set (map mod_Path ms) = mod_Path ` {m'. Some m' \<in> set pkgs \<and> direct_dep m' \<and> \<not> ?seen (mod_Path m')}"
        by blast
      have notin: "mod_Path m \<notin> set (map mod_Path ms)"
        unfolding ms(4) by auto
      have paths: "set (map mod_Path (m # ms)) =
          mod_Path ` {m'. Some m' \<in> set (pkg # pkgs) \<and> direct_dep m' \<and> \<not> seen (mod_Path m')}"
        unfolding list.map list.set ms(4) using True Some by auto
      have "Direct_loop (pkg # pkgs) direct seen = direct @ map Package_of (m # ms)"
        using step ms(1) by simp
      moreover have "distinct (map mod_Path (m # ms))"
        using ms(2) notin by simp
      moreover have "set (m # ms) \<subseteq> {m'. Some m' \<in> set (pkg # pkgs) \<and> direct_dep m'}"
        using ms(3) True Some by auto
      ultimately show ?thesis
        using paths by blast
    qed
  qed
qed

text \<open>
  Claim C10.  Whatever packages are loaded for the project directory, \<open>Direct\<close> returns
  one record for each module path that some loaded package's direct, unreplaced,
  non-main module has, and no other record: the records are those of modules \<open>ms\<close>
  with pairwise different paths, so a module with many loaded packages contributes
  exactly one record, and the number of records is the number of such paths.
\<close>

theorem Direct_one_record_per_module:
  assumes "load dir = Inr pkgs"
  shows "\<exists>ms. Direct load dir = Inr (map Package_of ms) \<and>
              distinct (map mod_Path ms) \<and>
              set ms \<subseteq> {m. Some m \<in> set pkgs \<and> direct_dep m} \<and>
              set (map mod_Path ms) = mod_Path ` {m. Some m \<in> set pkgs \<and> direct_dep m} \<and>
              length (map Package_of ms) = card (mod_Path ` {m. Some m \<in> set pkgs \<and> direct_dep m})"
proof -
  from Direct_loop_invariant [of pkgs "[]" "\<lambda>_. False"] obtain ms where ms:
    "Direct_loop pkgs [] (\<lambda>_. False) = map Package_of ms"
    "distinct (map mod_Path ms)"
    "set ms \<subseteq> {m. Some m \<in> set pkgs \<and> direct_dep m}"
    "set (map mod_Path ms) = mod_Path ` {m. Some m \<in> set pkgs \<and> direct_dep m}"
    by auto
  have "length (map Package_of ms) = card (set (map mod_Path ms))"
    using distinct_card [OF ms(2)] by simp
  with ms assms show ?thesis
    unfolding Direct_def by (intro exI [of _ ms]) simp
qed

text \<open>
  On the sample packages, the module loaded twice contributes one record, the indirect
  module none.
\<close>

theorem Direct_one_record_per_module_witness:
  "demo_load ''.'' = Inr demo_pkgs \<and>
   Direct demo_load ''.'' =
     Inr [\<lparr>Version = ''v0.9.1'', PkgDir = '''', ModPrefix = ''github.com/pkg/errors''\<rparr>,
          \<lparr>Version = ''v2.4.0'', PkgDir = '''', ModPrefix = ''gopkg.in/yaml''\<rparr>] \<and>
   (\<exists>ms. Direct demo_load ''.'' = Inr (map Package_of ms) \<and> distinct (map mod_Path ms) \<and>
         length (map Package_of ms) = 2)"
proof -
  have h: "demo_load ''.'' = Inr demo_pkgs"
    by (simp add: demo_load_def)
  have v: "Direct demo_load ''.'' =
     Inr [\<lparr>Version = ''v0.9.1'', PkgDir = '''', ModPrefix = ''github.com/pkg/errors''\<rparr>,
          \<lparr>Version = ''v2.4.0'', PkgDir = '''', ModPrefix = ''gopkg.in/yaml''\<rparr>]"
    by code_simp
  from Direct_one_record_per_module [of demo_load "''.''" demo_pkgs, OF h] obtain ms where
    ms: "Direct demo_load ''.'' = Inr (map Package_of ms)" "distinct (map mod_Path ms)"
    by blast
  from ms(1) v have "length (map Package_of ms) = 2"
    by (metis length_Cons list.size(3) numeral_2_eq_2 sum.inject(2))
  with ms h v show ?thesis by blast
qed

section \<open>Properties of the commands\<close>

text \<open>
  For a single argument whose package the proxy resolves, \<open>getcmd\<close> is its switch
  followed by the \<open>go get\<close> and rewrite steps.
\<close>

lemma getcmd_unfold:
  assumes "SplitSpec spec = (pkgpath, query)"
    and "modproxy_QueryPackage env pkgpath (get_cached fl) = Inr m"
  shows "getcmd env fl [spec] =
     (case getcmd_version env m query (get_pre fl) (get_cached fl) of
        Inl err \<Rightarrow> ([], Some err)
      | Inr (version, query') \<Rightarrow>
          getcmd_apply env fl (packages_ModPrefix env (pm_Path m))
            (fst (snd (packages_SplitPath env (packages_ModPrefix env (pm_Path m)) pkgpath)))
            version query')"
  using assms by (simp add: getcmd_def Let_def)

lemma demo_QueryPackage_errors:
  "modproxy_QueryPackage demo_env ''github.com/pkg/errors'' (get_cached demo_flags) =
     Inr \<lparr>pm_Path = ''github.com/pkg/errors'', pm_Versions = [''v0.9.1'', ''v3.1.0'']\<rparr>"
  by (simp add: demo_env_def demo_proxy_def HasPrefix_def)

lemma not_IsValid_master: "\<not> IsValid ''master''"
  by (simp add: IsValid_def parse_def)

lemma not_IsValid_default: "\<not> IsValid ''default''"
  by (simp add: IsValid_def parse_def)

text \<open>
  Claim C5.  In the explicit-version branch of \<open>getcmd\<close> (the query is neither empty
  nor \<open>latest\<close>, and the package was resolved), a query that is not a valid semantic
  version makes the command return the invalid-version error without running \<open>go get\<close>
  or the rewrite.  For a valid query for which \<open>MaxVersion\<close> restricted to the query
  returns the empty string, the switch ends without error with the query itself as
  version, and the command goes on to \<open>go get\<close> and the rewrite with that version.
\<close>

theorem getcmd_explicit_version:
  assumes "SplitSpec spec = (pkgpath, query)"
    and "modproxy_QueryPackage env pkgpath (get_cached fl) = Inr m"
    and "query \<noteq> ''''" and "query \<noteq> ''latest''"
  shows "(\<not> IsValid query \<longrightarrow> getcmd env fl [spec] = ([], Some (InvalidVersion query))) \<and>
         (IsValid query \<and> MaxVersion env m query (get_pre fl) = '''' \<longrightarrow>
            getcmd_version env m query (get_pre fl) (get_cached fl) = Inr (query, query) \<and>
            getcmd env fl [spec] =
              getcmd_apply env fl (packages_ModPrefix env (pm_Path m))
                (fst (snd (packages_SplitPath env (packages_ModPrefix env (pm_Path m)) pkgpath)))
                query query)"
proof (intro conjI impI)
  assume "\<not> IsValid query"
  with assms(3,4) have "getcmd_version env m query (get_pre fl) (get_cached fl) = Inl (InvalidVersion query)"
    by (simp add: getcmd_version_def)
  then show "getcmd env fl [spec] = ([], Some (InvalidVersion query))"
    by (simp add: getcmd_unfold [OF assms(1,2)])
next
  assume v: "IsValid query \<and> MaxVersion env m query (get_pre fl) = ''''"
  with assms(3,4) show r: "getcmd_version env m query (get_pre fl) (get_cached fl) = Inr (query, query)"
    by (simp add: getcmd_version_def)
  show "getcmd env fl [spec] =
          getcmd_apply env fl (packages_ModPrefix env (pm_Path m))
            (fst (snd (packages_SplitPath env (packages_ModPrefix env (pm_Path m)) pkgpath)))
            query query"
    by (simp add: getcmd_unfold [OF assms(1,2)] r)
qed

theorem getcmd_explicit_version_witness:
  "(SplitSpec ''github.com/pkg/errors@vNext'' = (''github.com/pkg/errors'', ''vNext'') \<and>
    \<not> IsValid ''vNext'') \<and>
   getcmd demo_env demo_flags [''github.com/pkg/errors@vNext''] = ([], Some (InvalidVersion ''vNext'')) \<and>
   (SplitSpec ''github.com/pkg/errors@v2.0.0'' = (''github.com/pkg/errors'', ''v2.0.0'') \<and>
    IsValid ''v2.0.0'' \<and>
    MaxVersion demo_env \<lparr>pm_Path = ''github.com/pkg/errors'', pm_Versions = [''v0.9.1'', ''v3.1.0'']\<rparr>
      ''v2.0.0'' (get_pre demo_flags) = '''') \<and>
   getcmd demo_env demo_flags [''github.com/pkg/errors@v2.0.0''] =
     ([Stdout ''go get github.com/pkg/errors/v2@v2.0.0'',
       GoGet ''.'' ''github.com/pkg/errors/v2@v2.0.0'',
       RewriteModule ''.'' \<lparr>opt_PkgDir = '''', opt_Prefix = ''github.com/pkg/errors'',
                              opt_NewVersion = ''v2.0.0''\<rparr>], None)"
proof -
  let ?m = "\<lparr>pm_Path = ''github.com/pkg/errors'', pm_Versions = [''v0.9.1'', ''v3.1.0'']\<rparr>"
  have s1: "SplitSpec ''github.com/pkg/errors@vNext'' = (''github.com/pkg/errors'', ''vNext'')"
    by code_simp
  have s2: "SplitSpec ''github.com/pkg/errors@v2.0.0'' = (''github.com/pkg/errors'', ''v2.0.0'')"
    by code_simp
  have i1: "\<not> IsValid ''vNext''" by code_simp
  have i2: "IsValid ''v2.0.0''" by code_simp
  have mx: "MaxVersion demo_env ?m ''v2.0.0'' (get_pre demo_flags) = ''''"
    by code_simp
  have ap: "getcmd_apply demo_env demo_flags (packages_ModPrefix demo_env (pm_Path ?m))
               (fst (snd (packages_SplitPath demo_env (packages_ModPrefix demo_env (pm_Path ?m))
                  ''github.com/pkg/errors''))) ''v2.0.0'' ''v2.0.0'' =
     ([Stdout ''go get github.com/pkg/errors/v2@v2.0.0'',
       GoGet ''.'' ''github.com/pkg/errors/v2@v2.0.0'',
       RewriteModule ''.'' \<lparr>opt_PkgDir = '''', opt_Prefix = ''github.com/pkg/errors'',
                              opt_NewVersion = ''v2.0.0''\<rparr>], None)"
    by code_simp
  from getcmd_explicit_version [OF s1 demo_QueryPackage_errors] i1
  have a: "getcmd demo_env demo_flags [''github.com/pkg/errors@vNext''] = ([], Some (InvalidVersion ''vNext''))"
    by simp
  from getcmd_explicit_version [OF s2 demo_QueryPackage_errors] i2 mx ap
  have b: "getcmd demo_env demo_flags [''github.com/pkg/errors@v2.0.0''] =
     ([Stdout ''go get github.com/pkg/errors/v2@v2.0.0'',
       GoGet ''.'' ''github.com/pkg/errors/v2@v2.0.0'',
       RewriteModule ''.'' \<lparr>opt_PkgDir = '''', opt_Prefix = ''github.com/pkg/errors'',
                              opt_NewVersion = ''v2.0.0''\<rparr>], None)"
    by simp
  from s1 s2 i1 i2 mx a b show ?thesis by blast
qed

text \<open>
  Claim C6.  The claim reads: the get command resolves the queries \<open>master\<close> and
  \<open>default\<close> as it resolves \<open>latest\<close>, by a live lookup whose newest version becomes
  the target, with no invalid-version error.  The switch of the earlier \<open>get\<close> has that
  case.  The switch of \<open>getcmd\<close> does not: there both queries reach the default
  branch, fail \<open>semver.IsValid\<close>, and the command returns the invalid-version error
  with nothing done.
\<close>

theorem getcmd_rejects_master_default:
  "getcmd_version env m ''master'' pre cached = Inl (InvalidVersion ''master'') \<and>
   getcmd_version env m ''default'' pre cached = Inl (InvalidVersion ''default'') \<and>
   getcmd env fl [''github.com/pkg/errors@master''] =
     (case modproxy_QueryPackage env ''github.com/pkg/errors'' (get_cached fl) of
        Inl err \<Rightarrow> ([], Some err)
      | Inr m' \<Rightarrow> ([], Some (InvalidVersion ''master''))) \<and>
   get_version env m ''master'' pre cached =
     (case modproxy_Latest env (pm_Path m) cached of
        Inl err \<Rightarrow> Inl err
      | Inr latest \<Rightarrow> Inr (MaxVersion env latest '''' pre, ''master'')) \<and>
   get_version env m ''default'' pre cached =
     (case modproxy_Latest env (pm_Path m) cached of
        Inl err \<Rightarrow> Inl err
      | Inr latest \<Rightarrow> Inr (MaxVersion env latest '''' pre, ''default''))"
proof -
  have a: "getcmd_version env m ''master'' pre cached = Inl (InvalidVersion ''master'')" for m pre cached
    by (simp add: getcmd_version_def not_IsValid_master)
  have b: "getcmd_version env m ''default'' pre cached = Inl (InvalidVersion ''default'')"
    by (simp add: getcmd_version_def not_IsValid_default)
  have s: "SplitSpec ''github.com/pkg/errors@master'' = (''github.com/pkg/errors'', ''master'')"
    by code_simp
  have c: "getcmd env fl [''github.com/pkg/errors@master''] =
     (case modproxy_QueryPackage env ''github.com/pkg/errors'' (get_cached fl) of
        Inl err \<Rightarrow> ([], Some err)
      | Inr m' \<Rightarrow> ([], Some (InvalidVersion ''master'')))"
    by (simp add: getcmd_def s a Let_def split: sum.splits)
  have d: "get_version env m ''master'' pre cached =
     (case modproxy_Latest env (pm_Path m) cached of
        Inl err \<Rightarrow> Inl err
      | Inr latest \<Rightarrow> Inr (MaxVersion env latest '''' pre, ''master''))"
    by (simp add: get_version_def)
  have e: "get_version env m ''default'' pre cached =
     (case modproxy_Latest env (pm_Path m) cached of
        Inl err \<Rightarrow> Inl err
      | Inr latest \<Rightarrow> Inr (MaxVersion env latest '''' pre, ''default''))"
    by (simp add: get_version_def)
  from a b c d e show ?thesis by blast
qed

text \<open>
  Claim C7.  The mapping function \<open>get\<close> builds for the rewrite never reports a path
  that is already at the target version as a change: when the path computed for an
  import equals the import path, the function returns \<open>ErrSkip\<close> and prints nothing;
  in no case does it return the import path itself as the new path.
\<close>

theorem get_replace_idempotent:
  "(packages_JoinPath env modprefix version
      (fst (snd (packages_SplitPath env modprefix path))) = path
    \<longrightarrow> get_replace env modprefix pkgdir version name path = ([], Inl ErrSkip)) \<and>
   snd (get_replace env modprefix pkgdir version name path) \<noteq> Inr path"
  by (simp add: get_replace_def Let_def split: prod.splits)

theorem get_replace_idempotent_witness:
  "packages_JoinPath demo_env ''github.com/pkg/errors'' ''v3.1.0''
      (fst (snd (packages_SplitPath demo_env ''github.com/pkg/errors''
         ''github.com/pkg/errors/v3/sub''))) = ''github.com/pkg/errors/v3/sub'' \<and>
   get_replace demo_env ''github.com/pkg/errors'' '''' ''v3.1.0'' ''main.go''
      ''github.com/pkg/errors/v3/sub'' = ([], Inl ErrSkip) \<and>
   get_replace demo_env ''github.com/pkg/errors'' '''' ''v3.1.0'' ''main.go''
      ''github.com/pkg/errors/sub'' =
     ([''main.go: github.com/pkg/errors/sub -> github.com/pkg/errors/v3/sub''],
      Inr ''github.com/pkg/errors/v3/sub'')"
proof -
  have h: "packages_JoinPath demo_env ''github.com/pkg/errors'' ''v3.1.0''
      (fst (snd (packages_SplitPath demo_env ''github.com/pkg/errors''
         ''github.com/pkg/errors/v3/sub''))) = ''github.com/pkg/errors/v3/sub''"
    by code_simp
  have r: "get_replace demo_env ''github.com/pkg/errors'' '''' ''v3.1.0'' ''main.go''
      ''github.com/pkg/errors/sub'' =
     ([''main.go: github.com/pkg/errors/sub -> github.com/pkg/errors/v3/sub''],
      Inr ''github.com/pkg/errors/v3/sub'')"
    by code_simp
  from get_replace_idempotent [of demo_env "''github.com/pkg/errors''" "''v3.1.0''"
      "''github.com/pkg/errors/v3/sub''" "''''" "''main.go''"] h r
  show ?thesis by simp
qed

text \<open>
  Every task of the list command returns \<open>nil\<close> to the group, so \<open>Wait\<close> returns \<open>nil\<close>
  in whatever order the tasks finish.
\<close>

lemma list_task_no_error: "snd (list_task env fl dep) = None"
  by (simp add: list_task_def Let_def split: sum.splits)

lemma Wait_all_None: "(\<And>r. r \<in> set rs \<Longrightarrow> r = None) \<Longrightarrow> Wait rs = None"
  by (induction rs rule: Wait.induct) auto

text \<open>
  Claim C8.  When the dependencies were enumerated, the list command returns no error,
  whatever the lookups returned and in whatever order the tasks finish; every
  dependency not matched by \<open>GOPRIVATE\<close> is processed once, what it prints depends on
  its own lookup only, and a failed lookup prints its failure line for that dependency.
\<close>

theorem listcmd_lookup_failure_is_isolated:
  assumes "packages_Direct env (list_dir fl) = Inr deps"
    and "mset (sched (list_started env deps)) = mset (list_started env deps)"
  shows "snd (listcmd env fl sched) = None \<and>
         mset (map fst (fst (listcmd env fl sched))) = mset (list_started env deps) \<and>
         fst (listcmd env fl sched) =
           map (\<lambda>dep. (dep, fst (list_task env fl dep))) (sched (list_started env deps)) \<and>
         (\<forall>dep err. modproxy_Latest env (dep_Path dep) (list_cached fl) = Inl err \<longrightarrow>
            list_task env fl dep = ([LookupFailed (dep_Path dep) err], None))"
proof (intro conjI allI impI)
  have "Wait (map (\<lambda>dep. snd (list_task env fl dep)) xs) = None" for xs
    by (rule Wait_all_None) (auto simp: list_task_no_error)
  with assms(1) show "snd (listcmd env fl sched) = None"
    by (simp add: listcmd_def Let_def)
next
  show fin: "fst (listcmd env fl sched) =
           map (\<lambda>dep. (dep, fst (list_task env fl dep))) (sched (list_started env deps))"
    using assms(1) by (simp add: listcmd_def Let_def)
  have "map fst (fst (listcmd env fl sched)) = sched (list_started env deps)"
    unfolding fin by (simp add: comp_def)
  with assms(2) show "mset (map fst (fst (listcmd env fl sched))) = mset (list_started env deps)"
    by simp
next
  fix dep :: Dependency and err
  assume "modproxy_Latest env (dep_Path dep) (list_cached fl) = Inl err"
  then show "list_task env fl dep = ([LookupFailed (dep_Path dep) err], None)"
    by (simp add: list_task_def)
qed

theorem listcmd_lookup_failure_is_isolated_witness:
  "packages_Direct demo_env (list_dir demo_list_flags) = Inr demo_deps \<and>
   mset (rev (list_started demo_env demo_deps)) = mset (list_started demo_env demo_deps) \<and>
   modproxy_Latest demo_env ''example.com/gone'' (list_cached demo_list_flags)
     = Inl (External ''not found'') \<and>
   listcmd demo_env demo_list_flags rev =
     ([(\<lparr>dep_Path = ''golang.org/x/mod'', dep_Version = ''v0.17.0''\<rparr>, []),
       (\<lparr>dep_Path = ''example.com/gone'', dep_Version = ''v1.0.0''\<rparr>,
        [LookupFailed ''example.com/gone'' (External ''not found'')]),
       (\<lparr>dep_Path = ''github.com/pkg/errors'', dep_Version = ''v0.9.1''\<rparr>,
        [Stdout ''github.com/pkg/errors: v0.9.1 [latest v3.1.0]''])],
      None)"
proof -
  have d: "packages_Direct demo_env (list_dir demo_list_flags) = Inr demo_deps"
    by (simp add: demo_env_def demo_deps_def)
  have p: "mset (rev (list_started demo_env demo_deps)) = mset (list_started demo_env demo_deps)"
    by simp
  have l: "modproxy_Latest demo_env ''example.com/gone'' (list_cached demo_list_flags)
     = Inl (External ''not found'')"
    by (simp add: demo_env_def demo_proxy_def)
  have st: "list_started demo_env demo_deps = demo_deps"
    by (simp add: list_started_def demo_env_def)
  have t1: "fst (list_task demo_env demo_list_flags
              \<lparr>dep_Path = ''github.com/pkg/errors'', dep_Version = ''v0.9.1''\<rparr>) =
            [Stdout ''github.com/pkg/errors: v0.9.1 [latest v3.1.0]'']"
    by code_simp
  have t2: "fst (list_task demo_env demo_list_flags
              \<lparr>dep_Path = ''example.com/gone'', dep_Version = ''v1.0.0''\<rparr>) =
            [LookupFailed ''example.com/gone'' (External ''not found'')]"
    by code_simp
  have t3: "fst (list_task demo_env demo_list_flags
              \<lparr>dep_Path = ''golang.org/x/mod'', dep_Version = ''v0.17.0''\<rparr>) = []"
    by code_simp
  from listcmd_lookup_failure_is_isolated [of demo_env demo_list_flags demo_deps rev, OF d p]
  have "snd (listcmd demo_env demo_list_flags rev) = None"
    and "fst (listcmd demo_env demo_list_flags rev) =
           map (\<lambda>dep. (dep, fst (list_task demo_env demo_list_flags dep)))
             (rev (list_started demo_env demo_deps))"
    by blast+
  then have "listcmd demo_env demo_list_flags rev =
     ([(\<lparr>dep_Path = ''golang.org/x/mod'', dep_Version = ''v0.17.0''\<rparr>, []),
       (\<lparr>dep_Path = ''example.com/gone'', dep_Version = ''v1.0.0''\<rparr>,
        [LookupFailed ''example.com/gone'' (External ''not found'')]),
       (\<lparr>dep_Path = ''github.com/pkg/errors'', dep_Version = ''v0.9.1''\<rparr>,
        [Stdout ''github.com/pkg/errors: v0.9.1 [latest v3.1.0]''])],
      None)"
    unfolding st by (simp add: demo_deps_def t1 t2 t3 prod_eq_iff)
  with d p l show ?thesis by blast
qed

end
